theory Spec2Isabelle
  imports Main "HOL-Library.Sublist"
begin

section \<open>Text: the string operations of \<^verbatim>\<open>lambda_function.py\<close>\<close>

text \<open>
  A Python \<^verbatim>\<open>str\<close> is modelled as a \<^typ>\<open>string\<close>, each \<^typ>\<open>char\<close> read as the code point
  of the same number (0 to 255). On that range the whitespace of \<^verbatim>\<open>str.strip()\<close> is
  U+0009 to U+000D, U+001C to U+001F, U+0020, U+0085 and U+00A0, and the only decimal
  digits accepted by \<^verbatim>\<open>int()\<close> are \<^verbatim>\<open>0\<close> to \<^verbatim>\<open>9\<close>. Python's integers are unbounded, so
  the counter is an \<^typ>\<open>int\<close>; the interpreter's configurable limit on the number of
  digits of a conversion is not part of the model.
\<close>

definition code_point :: "char \<Rightarrow> nat" where
  "code_point c = of_char c"

definition is_space :: "char \<Rightarrow> bool" where
  "is_space c =
     (let n = code_point c
      in (9 \<le> n \<and> n \<le> 13) \<or> (28 \<le> n \<and> n \<le> 32) \<or> n = 133 \<or> n = 160)"

text \<open>\<^verbatim>\<open>content.strip()\<close>: whitespace removed at both ends, none inside.\<close>

definition strip :: "string \<Rightarrow> string" where
  "strip s = rev (dropWhile is_space (rev (dropWhile is_space s)))"

definition is_digit :: "char \<Rightarrow> bool" where
  "is_digit c = (48 \<le> code_point c \<and> code_point c \<le> 57)"

definition digit_value :: "char \<Rightarrow> nat" where
  "digit_value c = code_point c - 48"

text \<open>
  The digits of \<^verbatim>\<open>int(text)\<close> in base ten: a digit first, then digits, each of which
  may be preceded by one underscore. Anything else is the \<^verbatim>\<open>ValueError\<close> of the source,
  here \<^const>\<open>None\<close>.
\<close>

fun int_digits :: "nat \<Rightarrow> string \<Rightarrow> nat option" where
  "int_digits acc [] = Some acc"
| "int_digits acc [c] =
     (if is_digit c then Some (10 * acc + digit_value c) else None)"
| "int_digits acc (c # d # cs) =
     (if is_digit c then int_digits (10 * acc + digit_value c) (d # cs)
      else if c = CHR ''_'' \<and> is_digit d then int_digits acc (d # cs)
      else None)"

definition int_magnitude :: "string \<Rightarrow> nat option" where
  "int_magnitude s =
     (case s of
        [] \<Rightarrow> None
      | c # cs \<Rightarrow> if is_digit c then int_digits 0 (c # cs) else None)"

text \<open>
  The whitespace that \<^verbatim>\<open>int()\<close> itself skips around the literal. It is a subset of
  the whitespace of \<^const>\<open>strip\<close>, so on stripped text it removes nothing.
\<close>

definition is_int_space :: "char \<Rightarrow> bool" where
  "is_int_space c =
     (let n = code_point c
      in (9 \<le> n \<and> n \<le> 13) \<or> n = 32 \<or> n = 133 \<or> n = 160)"

definition int_of_str :: "string \<Rightarrow> int option" where
  "int_of_str s =
     (let t = rev (dropWhile is_int_space (rev (dropWhile is_int_space s)))
      in case t of
           [] \<Rightarrow> None
         | c # cs \<Rightarrow>
             if c = CHR ''+'' then map_option int (int_magnitude cs)
             else if c = CHR ''-'' then map_option (\<lambda>n. - int n) (int_magnitude cs)
             else map_option int (int_magnitude (c # cs)))"

text \<open>\<^verbatim>\<open>str(counter)\<close>: the decimal text of an integer.\<close>

definition digit_char :: "nat \<Rightarrow> char" where
  "digit_char d = ''0123456789'' ! d"

fun str_nat :: "nat \<Rightarrow> string" where
  "str_nat n = (if n < 10 then [digit_char n] else str_nat (n div 10) @ [digit_char (n mod 10)])"

declare str_nat.simps [simp del]

definition str_int :: "int \<Rightarrow> string" where
  "str_int i = (if i < 0 then CHR ''-'' # str_nat (nat (- i)) else str_nat (nat i))"

text \<open>\<^verbatim>\<open>sep.join(items)\<close>.\<close>

fun join :: "string \<Rightarrow> string list \<Rightarrow> string" where
  "join sep [] = []"
| "join sep [x] = x"
| "join sep (x # y # ys) = x @ sep @ join sep (y # ys)"

text \<open>
  \<^verbatim>\<open>json.dumps\<close> of a dictionary of strings, with the default settings: keys in
  insertion order, the separators \<^verbatim>\<open>", "\<close> and \<^verbatim>\<open>": "\<close>, and every character outside
  the printable ASCII range escaped.
\<close>

definition hex_digit :: "nat \<Rightarrow> char" where
  "hex_digit d = ''0123456789abcdef'' ! d"

definition json_escape :: "char \<Rightarrow> string" where
  "json_escape c =
     (let n = code_point c
      in if n = 34 then [CHR 0x5C, CHR 0x22]
         else if n = 92 then [CHR 0x5C, CHR 0x5C]
         else if n = 10 then [CHR 0x5C, CHR ''n'']
         else if n = 13 then [CHR 0x5C, CHR ''r'']
         else if n = 9 then [CHR 0x5C, CHR ''t'']
         else if n = 8 then [CHR 0x5C, CHR ''b'']
         else if n = 12 then [CHR 0x5C, CHR ''f'']
         else if n < 32 \<or> 126 < n
           then [CHR 0x5C, CHR ''u'', CHR ''0'', CHR ''0'', hex_digit (n div 16), hex_digit (n mod 16)]
         else [c])"

definition json_string :: "string \<Rightarrow> string" where
  "json_string s = [CHR 0x22] @ concat (map json_escape s) @ [CHR 0x22]"

definition json_dumps :: "(string \<times> string) list \<Rightarrow> string" where
  "json_dumps kvs =
     ''{'' @ join '', '' (map (\<lambda>(k, v). json_string k @ '': '' @ json_string v) kvs) @ ''}''"

section \<open>The world outside the program\<close>

text \<open>
  Exceptions are values: the class (as far as the source distinguishes classes) and the
  text that \<^verbatim>\<open>str(e)\<close> gives.
\<close>

datatype exn_class =
  ClientError | ValueError | KeyError | OSError | CalledProcessError | GitCommandError
  | OtherException

datatype exn = Exn exn_class string

fun str_exn :: "exn \<Rightarrow> string" where
  "str_exn (Exn c m) = m"

fun exn_class_of :: "exn \<Rightarrow> exn_class" where
  "exn_class_of (Exn c m) = c"

datatype node = File string | Directory

type_synonym filesystem = "string \<Rightarrow> node option"

text \<open>
  Every call that leaves the program is recorded, in order, with its arguments.
  \<^verbatim>\<open>ConfigWriter\<close> carries the configuration level, which for the argument-less call
  \<^verbatim>\<open>repo.config_writer()\<close> of the source is the library's default
  \<^verbatim>\<open>"repository"\<close>; \<^verbatim>\<open>CloneFrom\<close> carries the URL, the target directory and the
  \<^verbatim>\<open>branch\<close> keyword.
\<close>

datatype event =
    Boto3Client string
  | GetSecretValue string
  | SubprocessRun "string list"
  | CloneFrom string string string
  | ConfigWriter string
  | SetValue string string string
  | FileRead string
  | FileWrite string string
  | GitAdd string
  | IndexCommit string
  | RemotePush string

datatype level = INFO | WARNING | ERROR

text \<open>
  The answers of the world: the process environment, and the outcome of each external
  call as a function of its arguments (an exception, or the result). \<^verbatim>\<open>rm\<close> and
  \<^verbatim>\<open>git clone\<close> change the file tree; the repository's own metadata is outside the tree
  that is modelled. \<^verbatim>\<open>read_fault\<close> and \<^verbatim>\<open>write_fault\<close> are the operating system's
  refusals to open a file (permissions, undecodable bytes, a missing parent directory).
\<close>

record world =
  environ :: "string \<Rightarrow> string option"
  boto3_client :: "string \<Rightarrow> exn option"
  get_secret_value :: "string \<Rightarrow> exn + string option"
  subprocess_run :: "string list \<Rightarrow> filesystem \<Rightarrow> exn + filesystem"
  clone_from :: "string \<Rightarrow> string \<Rightarrow> string \<Rightarrow> filesystem \<Rightarrow> exn + filesystem"
  config_writer :: "string \<Rightarrow> exn option"
  set_value :: "string \<Rightarrow> string \<Rightarrow> string \<Rightarrow> exn option"
  read_fault :: "string \<Rightarrow> exn option"
  write_fault :: "string \<Rightarrow> exn option"
  git_add :: "string \<Rightarrow> exn option"
  index_commit :: "string \<Rightarrow> exn option"
  remote_push :: "string \<Rightarrow> exn option"

text \<open>
  The state the program changes: the file tree, the calls made so far, and the records
  handed to the logger (level and message; the handler's filtering by \<^verbatim>\<open>LOG_LEVEL\<close> and
  its formatting are the logging library's).
\<close>

record state =
  fs :: filesystem
  events :: "event list"
  logs :: "(level \<times> string) list"

type_synonym 'a action = "state \<Rightarrow> (exn + 'a) \<times> state"

definition succeed :: "'a \<Rightarrow> 'a action" where
  "succeed x s = (Inr x, s)"

definition raise :: "exn \<Rightarrow> 'a action" where
  "raise e s = (Inl e, s)"

definition and_then :: "'a action \<Rightarrow> ('a \<Rightarrow> 'b action) \<Rightarrow> 'b action" where
  "and_then m f s = (case m s of (Inl e, s') \<Rightarrow> (Inl e, s') | (Inr x, s') \<Rightarrow> f x s')"

definition emit :: "event \<Rightarrow> unit action" where
  "emit ev s = (Inr (), s\<lparr>events := events s @ [ev]\<rparr>)"

definition logger :: "level \<Rightarrow> string \<Rightarrow> unit action" where
  "logger lvl msg s = (Inr (), s\<lparr>logs := logs s @ [(lvl, msg)]\<rparr>)"

text \<open>An external call whose outcome is an exception or nothing.\<close>

definition call :: "event \<Rightarrow> exn option \<Rightarrow> unit action" where
  "call ev outcome =
     and_then (emit ev) (\<lambda>_. case outcome of Some e \<Rightarrow> raise e | None \<Rightarrow> succeed ())"

text \<open>An external call that rewrites the file tree.\<close>

definition call_fs :: "event \<Rightarrow> (filesystem \<Rightarrow> exn + filesystem) \<Rightarrow> unit action" where
  "call_fs ev f =
     and_then (emit ev) (\<lambda>_ s.
       case f (fs s) of Inl e \<Rightarrow> (Inl e, s) | Inr t \<Rightarrow> (Inr (), s\<lparr>fs := t\<rparr>))"

text \<open>\<^verbatim>\<open>except Exception as e: logger.error(f"<prefix>{str(e)}"); raise\<close>.\<close>

definition log_and_reraise :: "string \<Rightarrow> 'a action \<Rightarrow> 'a action" where
  "log_and_reraise pre m s =
     (case m s of
        (Inl e, s') \<Rightarrow> (Inl e, s'\<lparr>logs := logs s' @ [(ERROR, pre @ str_exn e)]\<rparr>)
      | (Inr x, s') \<Rightarrow> (Inr x, s'))"

definition quoted :: "string \<Rightarrow> string" where
  "quoted p = [CHR 0x27] @ p @ [CHR 0x27]"

text \<open>\<^verbatim>\<open>os.environ[name]\<close>: a \<^verbatim>\<open>KeyError\<close> when the variable is not set.\<close>

definition environ_item :: "world \<Rightarrow> string \<Rightarrow> string action" where
  "environ_item w name =
     (case environ w name of
        None \<Rightarrow> raise (Exn KeyError (quoted name))
      | Some v \<Rightarrow> succeed v)"

definition os_path_exists :: "string \<Rightarrow> bool action" where
  "os_path_exists p s = (Inr (case fs s p of None \<Rightarrow> False | Some n \<Rightarrow> True), s)"

text \<open>\<^verbatim>\<open>with open(p, "r") as file: file.read()\<close>.\<close>

definition open_read :: "world \<Rightarrow> string \<Rightarrow> string action" where
  "open_read w p =
     and_then (emit (FileRead p)) (\<lambda>_ s.
       case fs s p of
         None \<Rightarrow> (Inl (Exn OSError (''[Errno 2] No such file or directory: '' @ quoted p)), s)
       | Some Directory \<Rightarrow> (Inl (Exn OSError (''[Errno 21] Is a directory: '' @ quoted p)), s)
       | Some (File c) \<Rightarrow>
           (case read_fault w p of Some e \<Rightarrow> (Inl e, s) | None \<Rightarrow> (Inr c, s)))"

text \<open>\<^verbatim>\<open>with open(p, "w") as file: file.write(text)\<close>: the file is replaced whole.\<close>

definition open_write :: "world \<Rightarrow> string \<Rightarrow> string \<Rightarrow> unit action" where
  "open_write w p text =
     and_then (emit (FileWrite p text)) (\<lambda>_ s.
       case fs s p of
         Some Directory \<Rightarrow> (Inl (Exn OSError (''[Errno 21] Is a directory: '' @ quoted p)), s)
       | _ \<Rightarrow>
           (case write_fault w p of
              Some e \<Rightarrow> (Inl e, s)
            | None \<Rightarrow> (Inr (), s\<lparr>fs := (fs s)(p \<mapsto> File text)\<rparr>)))"

text \<open>\<^verbatim>\<open>os.path.join(a, b)\<close> of \<^verbatim>\<open>posixpath\<close>.\<close>

definition os_path_join :: "string \<Rightarrow> string \<Rightarrow> string" where
  "os_path_join a b =
     (if take 1 b = ''/'' then b
      else if a = [] \<or> take 1 (rev a) = ''/'' then a @ b
      else a @ ''/'' @ b)"

section \<open>The program\<close>

subsection \<open>\<^verbatim>\<open>get_github_token\<close>\<close>

text \<open>
  The client is created, the secret identifier is read from the environment, the secret
  is requested, and the \<^verbatim>\<open>SecretString\<close> item of the response is returned. Only a
  \<^verbatim>\<open>ClientError\<close> is logged; every exception is raised again.
\<close>

definition get_github_token :: "world \<Rightarrow> string action" where
  "get_github_token w s =
     (case and_then (call (Boto3Client ''secretsmanager'') (boto3_client w ''secretsmanager''))
             (\<lambda>_. and_then (environ_item w ''AWS_SECRET_ID'')
             (\<lambda>secret_id. and_then (emit (GetSecretValue secret_id))
             (\<lambda>_. case get_secret_value w secret_id of
                      Inl e \<Rightarrow> raise e
                    | Inr None \<Rightarrow> raise (Exn KeyError (quoted ''SecretString''))
                    | Inr (Some secret_string) \<Rightarrow> succeed secret_string))) s of
        (Inl e, s') \<Rightarrow>
          if exn_class_of e = ClientError
          then (Inl e, s'\<lparr>logs := logs s' @ [(ERROR, ''Failed to retrieve secret: '' @ str_exn e)]\<rparr>)
          else (Inl e, s')
      | (Inr secret_string, s') \<Rightarrow> (Inr secret_string, s'))"

subsection \<open>\<^verbatim>\<open>setup_repo\<close>\<close>

datatype repo = Repo string

definition repo_dir :: string where
  "repo_dir = ''/tmp/repo''"

text \<open>
  The parameter \<^verbatim>\<open>token\<close> is not used by the body, as in the source. The
  \<^verbatim>\<open>with\<close> block of the configuration writer is the call that opens the writer and
  the two \<^verbatim>\<open>set_value\<close> calls; leaving the block is not a call of its own.
\<close>

definition setup_repo :: "world \<Rightarrow> string \<Rightarrow> string \<Rightarrow> string \<Rightarrow> repo action" where
  "setup_repo w token repo_url branch =
     log_and_reraise ''Failed to set up repository: ''
       (and_then (os_path_exists repo_dir)
       (\<lambda>present. and_then
          (if present
           then and_then (logger INFO ''Cleaning up existing repo directory'')
                  (\<lambda>_. call_fs (SubprocessRun [''rm'', ''-rf'', repo_dir])
                          (subprocess_run w [''rm'', ''-rf'', repo_dir]))
           else succeed ())
       (\<lambda>_. and_then (logger INFO ''Cloning repository'')
       (\<lambda>_. and_then (call_fs (CloneFrom repo_url repo_dir branch)
                        (clone_from w repo_url repo_dir branch))
       (\<lambda>_. and_then (call (ConfigWriter ''repository'') (config_writer w ''repository''))
       (\<lambda>_. and_then (call (SetValue ''user'' ''name'' ''Commitron Bot'')
                        (set_value w ''user'' ''name'' ''Commitron Bot''))
       (\<lambda>_. and_then (call (SetValue ''user'' ''email'' ''bot@commitron.com'')
                        (set_value w ''user'' ''email'' ''bot@commitron.com''))
       (\<lambda>_. succeed (Repo repo_dir)))))))))"

subsection \<open>\<^verbatim>\<open>update_counter\<close>\<close>

text \<open>
  \<^verbatim>\<open>counter\<close> starts at 1. When the path exists the file is read and stripped; if
  \<^verbatim>\<open>int\<close> accepts the text the counter is its value plus one, otherwise a warning is
  logged and the counter stays 1. The decimal text of the counter then replaces the file.
\<close>

definition read_counter :: "world \<Rightarrow> string \<Rightarrow> int action" where
  "read_counter w file_path =
     and_then (os_path_exists file_path)
       (\<lambda>present.
          if present
          then and_then (open_read w file_path)
                 (\<lambda>text. let content = strip text
                         in case int_of_str content of
                              Some n \<Rightarrow> succeed (n + 1)
                            | None \<Rightarrow>
                                and_then
                                  (logger WARNING
                                     (''Invalid counter value in file: '' @ content
                                        @ '', resetting to 1''))
                                  (\<lambda>_. succeed 1))
          else succeed 1)"

definition update_counter :: "world \<Rightarrow> string \<Rightarrow> int action" where
  "update_counter w file_path =
     log_and_reraise ''Failed to update counter: ''
       (and_then (read_counter w file_path)
       (\<lambda>counter. and_then (open_write w file_path (str_int counter))
       (\<lambda>_. succeed counter)))"

subsection \<open>\<^verbatim>\<open>lambda_handler\<close>\<close>

record response =
  statusCode :: int
  body :: string

definition required_env_vars :: "string list" where
  "required_env_vars = [''GITHUB_REPO'', ''FILE_PATH'', ''BRANCH'', ''AWS_SECRET_ID'']"

text \<open>\<^verbatim>\<open>not os.environ.get(var)\<close>: the variable is unset or set to the empty string.\<close>

definition not_set :: "world \<Rightarrow> string \<Rightarrow> bool" where
  "not_set w var = (case environ w var of None \<Rightarrow> True | Some v \<Rightarrow> v = [])"

definition missing_vars :: "world \<Rightarrow> string list" where
  "missing_vars w = filter (not_set w) required_env_vars"

definition repo_url_of :: "string \<Rightarrow> string \<Rightarrow> string" where
  "repo_url_of token github_repo = ''https://'' @ token @ ''@github.com/'' @ github_repo @ ''.git''"

definition commit_message :: "int \<Rightarrow> string" where
  "commit_message counter = ''Automated commit: Increment counter to '' @ str_int counter"

text \<open>
  The body of the \<^verbatim>\<open>try\<close> block, up to the values the success response is built
  from: the counter, the repository identifier and the branch.
\<close>

definition handler_body :: "world \<Rightarrow> (int \<times> string \<times> string) action" where
  "handler_body w =
     (if missing_vars w \<noteq> []
      then raise (Exn ValueError
                   (''Missing required environment variables: '' @ join '', '' (missing_vars w)))
      else and_then (environ_item w ''GITHUB_REPO'')
       (\<lambda>github_repo. and_then (environ_item w ''FILE_PATH'')
       (\<lambda>file_path. and_then (environ_item w ''BRANCH'')
       (\<lambda>branch. and_then (get_github_token w)
       (\<lambda>token. and_then (setup_repo w token (repo_url_of token github_repo) branch)
       (\<lambda>repo. and_then (update_counter w (os_path_join ''/tmp/repo'' file_path))
       (\<lambda>counter. and_then (call (GitAdd (os_path_join ''/tmp/repo'' file_path))
                              (git_add w (os_path_join ''/tmp/repo'' file_path)))
       (\<lambda>_. and_then (call (IndexCommit (commit_message counter))
                        (index_commit w (commit_message counter)))
       (\<lambda>_. and_then (logger INFO ''Created commit'')
       (\<lambda>_. and_then (call (RemotePush ''origin'') (remote_push w ''origin''))
       (\<lambda>_. and_then (logger INFO ''Successfully pushed changes to remote repository'')
       (\<lambda>_. succeed (counter, github_repo, branch)))))))))))))"

text \<open>
  The handler's arguments \<^verbatim>\<open>event\<close> and \<^verbatim>\<open>context\<close> are never read and are left out.
  Every exception of the body is caught, logged and turned into the failure response.
\<close>

definition lambda_handler :: "world \<Rightarrow> state \<Rightarrow> response \<times> state" where
  "lambda_handler w s =
     (case handler_body w s of
        (Inr (counter, github_repo, branch), s') \<Rightarrow>
          (\<lparr>statusCode = 200,
            body = json_dumps [(''message'', ''Counter updated to '' @ str_int counter),
                               (''repository'', github_repo),
                               (''branch'', branch)]\<rparr>, s')
      | (Inl e, s') \<Rightarrow>
          (\<lparr>statusCode = 500, body = json_dumps [(''error'', str_exn e)]\<rparr>,
           s'\<lparr>logs := logs s' @ [(ERROR, ''Lambda execution failed: '' @ str_exn e)]\<rparr>))"

section \<open>Concrete worlds\<close>

text \<open>
  A world in which every external call succeeds: the secret store answers with the given
  token, \<^verbatim>\<open>rm -rf\<close> removes the working directory and what is under it, and the clone
  puts the given working tree at the target directory.
\<close>

definition example_environ :: "string \<Rightarrow> string option" where
  "example_environ =
     [''GITHUB_REPO'' \<mapsto> ''octo/demo'', ''FILE_PATH'' \<mapsto> ''counter.txt'',
      ''BRANCH'' \<mapsto> ''main'', ''AWS_SECRET_ID'' \<mapsto> ''github/token'']"

definition under :: "string \<Rightarrow> string \<Rightarrow> bool" where
  "under dir p = (p = dir \<or> prefix (dir @ ''/'') p)"

definition example_world :: "(string \<Rightarrow> string option) \<Rightarrow> string \<Rightarrow> filesystem \<Rightarrow> world" where
  "example_world env token tree =
     \<lparr>environ = env,
      boto3_client = (\<lambda>service. None),
      get_secret_value = (\<lambda>secret_id. Inr (Some token)),
      subprocess_run = (\<lambda>cmd t. Inr (\<lambda>p. if under ''/tmp/repo'' p then None else t p)),
      clone_from = (\<lambda>url dir branch t. Inr (\<lambda>p. if under dir p then tree p else t p)),
      config_writer = (\<lambda>lvl. None),
      set_value = (\<lambda>sec key val. None),
      read_fault = (\<lambda>p. None),
      write_fault = (\<lambda>p. None),
      git_add = (\<lambda>p. None),
      index_commit = (\<lambda>msg. None),
      remote_push = (\<lambda>name. None)\<rparr>"

definition empty_state :: state where
  "empty_state = \<lparr>fs = Map.empty, events = [], logs = []\<rparr>"

definition state_with_file :: "string \<Rightarrow> string \<Rightarrow> state" where
  "state_with_file p text = \<lparr>fs = [p \<mapsto> File text], events = [], logs = []\<rparr>"

text \<open>A working tree whose counter file holds 41 between blanks and a newline.\<close>

definition tree_41 :: filesystem where
  "tree_41 =
     [''/tmp/repo'' \<mapsto> Directory,
      ''/tmp/repo/counter.txt'' \<mapsto> File ('' 41 '' @ [CHR 0x0A])]"

text \<open>A state left behind by an earlier run: the working directory is still there.\<close>

definition stale_state :: state where
  "stale_state =
     \<lparr>fs = [''/tmp/repo'' \<mapsto> Directory, ''/tmp/repo/counter.txt'' \<mapsto> File ''7''],
      events = [], logs = []\<rparr>"

text \<open>
  A world in which the clone fails and the exception's text carries the command line,
  and with it the URL it was given.
\<close>

definition leaky_world :: "string \<Rightarrow> world" where
  "leaky_world token =
     (example_world example_environ token Map.empty)
       \<lparr>clone_from := (\<lambda>url dir branch t.
          Inl (Exn GitCommandError
                (''Cmd(git) failed due to: exit code(128) cmdline: git clone -v --branch=''
                   @ branch @ '' -- '' @ url @ '' '' @ dir)))\<rparr>"

text \<open>An environment without \<^verbatim>\<open>BRANCH\<close> and with an empty \<^verbatim>\<open>AWS_SECRET_ID\<close>.\<close>

definition partial_environ :: "string \<Rightarrow> string option" where
  "partial_environ =
     [''GITHUB_REPO'' \<mapsto> ''octo/demo'', ''FILE_PATH'' \<mapsto> ''counter.txt'',
      ''AWS_SECRET_ID'' \<mapsto> []]"

text \<open>An environment whose \<^verbatim>\<open>FILE_PATH\<close> is absolute.\<close>

definition absolute_environ :: "string \<Rightarrow> string option" where
  "absolute_environ =
     [''GITHUB_REPO'' \<mapsto> ''octo/demo'', ''FILE_PATH'' \<mapsto> ''/var/data/counter.txt'',
      ''BRANCH'' \<mapsto> ''main'', ''AWS_SECRET_ID'' \<mapsto> ''github/token'']"

text \<open>A world whose secret store refuses the request.\<close>

definition denied_world :: world where
  "denied_world =
     (example_world example_environ [] Map.empty)
       \<lparr>get_secret_value := (\<lambda>secret_id.
          Inl (Exn ClientError
                ''An error occurred (AccessDeniedException) when calling the GetSecretValue operation''))\<rparr>"

section \<open>Reasoning about actions\<close>

lemma and_then_Inr:
  "and_then m f s = (Inr y, s'') \<longleftrightarrow> (\<exists>x s'. m s = (Inr x, s') \<and> f x s' = (Inr y, s''))"
  by (auto simp: and_then_def split: prod.splits sum.splits)

lemma succeed_Inr: "succeed x s = (Inr y, s') \<longleftrightarrow> y = x \<and> s' = s"
  by (auto simp: succeed_def)

lemma raise_Inr: "raise e s \<noteq> (Inr y, s')"
  by (simp add: raise_def)

lemma emit_Inr: "emit ev s = (Inr u, s') \<longleftrightarrow> s' = s\<lparr>events := events s @ [ev]\<rparr>"
  by (auto simp: emit_def)

lemma logger_Inr: "logger l m s = (Inr u, s') \<longleftrightarrow> s' = s\<lparr>logs := logs s @ [(l, m)]\<rparr>"
  by (auto simp: logger_def)

lemma call_Inr:
  "call ev outcome s = (Inr u, s') \<longleftrightarrow> outcome = None \<and> s' = s\<lparr>events := events s @ [ev]\<rparr>"
  by (cases outcome) (auto simp: call_def and_then_Inr emit_Inr succeed_Inr raise_Inr)

lemma call_fs_Inr:
  "call_fs ev f s = (Inr u, s') \<longleftrightarrow>
     (\<exists>t. f (fs s) = Inr t \<and> s' = s\<lparr>events := events s @ [ev], fs := t\<rparr>)"
  by (auto simp: call_fs_def and_then_Inr emit_Inr split: sum.splits)

lemma log_and_reraise_Inr: "log_and_reraise pre m s = (Inr x, s') \<longleftrightarrow> m s = (Inr x, s')"
  by (auto simp: log_and_reraise_def split: prod.splits sum.splits)

lemma environ_item_Inr:
  "environ_item w name s = (Inr v, s') \<longleftrightarrow> environ w name = Some v \<and> s' = s"
  by (auto simp: environ_item_def succeed_Inr raise_Inr split: option.splits)

lemma os_path_exists_Inr:
  "os_path_exists p s = (Inr b, s') \<longleftrightarrow> b = (fs s p \<noteq> None) \<and> s' = s"
  by (auto simp: os_path_exists_def split: option.splits)


lemma succeed_Inl: "succeed x s \<noteq> (Inl e, s')"
  by (simp add: succeed_def)

lemma raise_Inl: "raise e s = (Inl e', s') \<longleftrightarrow> e' = e \<and> s' = s"
  by (auto simp: raise_def)






lemma environ_item_Inl:
  "environ_item w name s = (Inl e, s') \<longleftrightarrow>
     environ w name = None \<and> e = Exn KeyError (quoted name) \<and> s' = s"
  by (auto simp: environ_item_def succeed_Inl raise_Inl split: option.splits)


lemmas text_defs =
  strip_def is_space_def is_int_space_def code_point_def int_of_str_def int_magnitude_def
  is_digit_def digit_value_def str_int_def str_nat.simps digit_char_def

section \<open>Decimal text\<close>





lemma int_digits_all_digits:
  "ds \<noteq> [] \<Longrightarrow> list_all is_digit ds \<Longrightarrow>
     int_digits acc ds = Some (foldl (\<lambda>a c. 10 * a + digit_value c) acc ds)"
  by (induction acc ds rule: int_digits.induct) auto



lemma digit_not_space: "is_digit c \<Longrightarrow> \<not> is_space c \<and> \<not> is_int_space c \<and> c \<noteq> CHR ''+'' \<and> c \<noteq> CHR ''-''"
  by (auto simp: is_digit_def is_space_def is_int_space_def code_point_def)

lemma trim_unchanged:
  assumes "s \<noteq> []" and "\<not> P (hd s)" and "\<not> P (last s)"
  shows "rev (dropWhile P (rev (dropWhile P s))) = s"
proof -
  from assms have "dropWhile P s = s" by (cases s) auto
  moreover from assms have "dropWhile P (rev s) = rev s"
    by (cases "rev s") (auto simp: hd_rev)
  ultimately show ?thesis by simp
qed











lemma decimal_text_parses:
  assumes "ds \<noteq> []" and "list_all is_digit ds"
  shows "int_of_str (strip ds) = Some (int (foldl (\<lambda>a c. 10 * a + digit_value c) 0 ds))"
proof -
  from assms obtain c cs where cs: "ds = c # cs" by (cases ds) auto
  with assms have c: "is_digit c" by simp
  from assms have l: "is_digit (last ds)"
    by (simp add: list_all_iff)
  from assms c cs have h: "is_digit (hd ds)" by simp
  have s: "strip ds = ds"
    unfolding strip_def using assms(1) h l digit_not_space
    by (intro trim_unchanged) auto
  have t: "rev (dropWhile is_int_space (rev (dropWhile is_int_space ds))) = ds"
    using assms(1) h l digit_not_space by (intro trim_unchanged) auto
  have "int_magnitude (c # cs) = Some (foldl (\<lambda>a c. 10 * a + digit_value c) 0 (c # cs))"
    using assms c cs by (simp add: int_magnitude_def int_digits_all_digits del: foldl_Cons)
  with c digit_not_space [of c] show ?thesis
    by (simp add: s int_of_str_def t Let_def) (simp add: cs)
qed

section \<open>The counter store\<close>

lemma read_counter_present:
  assumes "fs s p = Some (File text)" and "read_fault w p = None"
  shows "read_counter w p s =
     (case int_of_str (strip text) of
        Some n \<Rightarrow> (Inr (n + 1), s\<lparr>events := events s @ [FileRead p]\<rparr>)
      | None \<Rightarrow>
          (Inr 1,
           s\<lparr>events := events s @ [FileRead p],
             logs := logs s @ [(WARNING, ''Invalid counter value in file: '' @ strip text
                                           @ '', resetting to 1'')]\<rparr>))"
  using assms
  by (simp add: read_counter_def and_then_def os_path_exists_def open_read_def emit_def
      logger_def succeed_def split: option.splits)

lemma read_counter_absent:
  assumes "fs s p = None"
  shows "read_counter w p s = (Inr 1, s)"
  using assms
  by (simp add: read_counter_def and_then_def os_path_exists_def succeed_def)



text \<open>
  C2. When the counter file exists, can be read and written, and its stripped content is
  not accepted by \<^verbatim>\<open>int\<close> (the empty text included), \<^verbatim>\<open>update_counter\<close> logs one
  warning, returns 1 and the file's whole content becomes \<^verbatim>\<open>1\<close>: neither 0 nor an
  old value plus one.
\<close>

theorem update_counter_resets:
  assumes "fs s p = Some (File text)" and "read_fault w p = None" and "write_fault w p = None"
    and "int_of_str (strip text) = None"
  shows "update_counter w p s =
     (Inr 1,
      s\<lparr>fs := (fs s)(p \<mapsto> File ''1''),
        events := events s @ [FileRead p, FileWrite p ''1''],
        logs := logs s @ [(WARNING, ''Invalid counter value in file: '' @ strip text
                                      @ '', resetting to 1'')]\<rparr>)"
  using assms
  by (simp add: update_counter_def log_and_reraise_def and_then_def read_counter_present
      open_write_def emit_def succeed_def str_int_def str_nat.simps digit_char_def)

theorem update_counter_resets_witness:
  "int_of_str (strip []) = None
   \<and> update_counter (example_world example_environ ''t0k3n'' Map.empty) ''/tmp/repo/counter.txt''
        (state_with_file ''/tmp/repo/counter.txt'' [])
      = (Inr 1,
         \<lparr>fs = [''/tmp/repo/counter.txt'' \<mapsto> File ''1''],
          events = [FileRead ''/tmp/repo/counter.txt'', FileWrite ''/tmp/repo/counter.txt'' ''1''],
          logs = [(WARNING, ''Invalid counter value in file: , resetting to 1'')]\<rparr>)
   \<and> int_of_str (strip ''abc'') = None
   \<and> update_counter (example_world example_environ ''t0k3n'' Map.empty) ''/tmp/repo/counter.txt''
        (state_with_file ''/tmp/repo/counter.txt'' ''abc'')
      = (Inr 1,
         \<lparr>fs = [''/tmp/repo/counter.txt'' \<mapsto> File ''1''],
          events = [FileRead ''/tmp/repo/counter.txt'', FileWrite ''/tmp/repo/counter.txt'' ''1''],
          logs = [(WARNING, ''Invalid counter value in file: abc, resetting to 1'')]\<rparr>)"
  using update_counter_resets
    [of "state_with_file ''/tmp/repo/counter.txt'' []" "''/tmp/repo/counter.txt''" "[]"
        "example_world example_environ ''t0k3n'' Map.empty"]
    update_counter_resets
    [of "state_with_file ''/tmp/repo/counter.txt'' ''abc''" "''/tmp/repo/counter.txt''" "''abc''"
        "example_world example_environ ''t0k3n'' Map.empty"]
  by (simp add: state_with_file_def example_world_def text_defs)

text \<open>
  C3. When nothing exists at the counter path and the file can be created,
  \<^verbatim>\<open>update_counter\<close> creates it with the content \<^verbatim>\<open>1\<close> and returns 1, without reading
  and without logging.
\<close>

theorem update_counter_first_use:
  assumes "fs s p = None" and "write_fault w p = None"
  shows "update_counter w p s =
     (Inr 1, s\<lparr>fs := (fs s)(p \<mapsto> File ''1''), events := events s @ [FileWrite p ''1'']\<rparr>)"
  using assms
  by (simp add: update_counter_def log_and_reraise_def and_then_def read_counter_absent
      open_write_def emit_def succeed_def str_int_def str_nat.simps digit_char_def)

theorem update_counter_first_use_witness:
  "fs empty_state ''/tmp/repo/counter.txt'' = None
   \<and> write_fault (example_world example_environ ''t0k3n'' Map.empty) ''/tmp/repo/counter.txt'' = None
   \<and> update_counter (example_world example_environ ''t0k3n'' Map.empty) ''/tmp/repo/counter.txt''
        empty_state
      = (Inr 1,
         \<lparr>fs = [''/tmp/repo/counter.txt'' \<mapsto> File ''1''],
          events = [FileWrite ''/tmp/repo/counter.txt'' ''1''],
          logs = []\<rparr>)"
  using update_counter_first_use
    [of empty_state "''/tmp/repo/counter.txt''" "example_world example_environ ''t0k3n'' Map.empty"]
  by (simp add: empty_state_def example_world_def)

lemma read_counter_Inr:
  assumes "read_counter w p s = (Inr n, s')"
  shows "(fs s p = None \<and> n = 1 \<and> s' = s)
       \<or> (\<exists>text. fs s p = Some (File text) \<and> read_fault w p = None
             \<and> events s' = events s @ [FileRead p] \<and> fs s' = fs s
             \<and> (case int_of_str (strip text) of Some N \<Rightarrow> n = N + 1 \<and> logs s' = logs s
                 | None \<Rightarrow> n = 1 \<and> logs s' = logs s @ [(WARNING, ''Invalid counter value in file: '' @ strip text @ '', resetting to 1'')]))"
  using assms
  by (auto simp: read_counter_def and_then_def os_path_exists_def open_read_def emit_def
      logger_def succeed_def Let_def split: option.splits node.splits if_splits)

lemma open_write_Inr:
  "open_write w p text s = (Inr u, s') \<longleftrightarrow>
     fs s p \<noteq> Some Directory \<and> write_fault w p = None
     \<and> s' = s\<lparr>events := events s @ [FileWrite p text], fs := (fs s)(p \<mapsto> File text)\<rparr>"
  by (auto simp: open_write_def and_then_def emit_def split: option.splits node.splits)

lemma update_counter_Inr:
  assumes "update_counter w p s = (Inr n, s')"
  shows "fs s' = (fs s)(p \<mapsto> File (str_int n))
    \<and> ((fs s p = None \<and> n = 1 \<and> events s' = events s @ [FileWrite p (str_int n)]
          \<and> logs s' = logs s)
       \<or> (\<exists>text. fs s p = Some (File text)
             \<and> events s' = events s @ [FileRead p, FileWrite p (str_int n)]
             \<and> (case int_of_str (strip text) of Some N \<Rightarrow> n = N + 1 \<and> logs s' = logs s
                 | None \<Rightarrow> n = 1 \<and> logs s' = logs s @ [(WARNING, ''Invalid counter value in file: '' @ strip text @ '', resetting to 1'')])))"
proof -
  from assms obtain s1 where r: "read_counter w p s = (Inr n, s1)"
    and wr: "open_write w p (str_int n) s1 = (Inr (), s')"
    by (auto simp: update_counter_def log_and_reraise_Inr and_then_Inr succeed_Inr)
  from read_counter_Inr [OF r] wr show ?thesis
    by (auto simp: open_write_Inr split: option.splits)
qed





section \<open>The repository provisioner\<close>



lemma setup_repo_Inr:
  "setup_repo w token url branch s = (Inr r, s') \<longleftrightarrow>
     (\<exists>t t'. (if fs s repo_dir \<noteq> None
              then subprocess_run w [''rm'', ''-rf'', repo_dir] (fs s) = Inr t else t = fs s)
        \<and> clone_from w url repo_dir branch t = Inr t'
        \<and> config_writer w ''repository'' = None
        \<and> set_value w ''user'' ''name'' ''Commitron Bot'' = None
        \<and> set_value w ''user'' ''email'' ''bot@commitron.com'' = None
        \<and> r = Repo repo_dir
        \<and> s' = s\<lparr>fs := t',
              events := events s @
                (if fs s repo_dir \<noteq> None then [SubprocessRun [''rm'', ''-rf'', repo_dir]] else []) @
                [CloneFrom url repo_dir branch, ConfigWriter ''repository'',
                 SetValue ''user'' ''name'' ''Commitron Bot'',
                 SetValue ''user'' ''email'' ''bot@commitron.com''],
              logs := logs s @
                (if fs s repo_dir \<noteq> None then [(INFO, ''Cleaning up existing repo directory'')] else []) @
                [(INFO, ''Cloning repository'')]\<rparr>)"
  by (auto simp: setup_repo_def log_and_reraise_Inr and_then_Inr os_path_exists_Inr
      logger_Inr call_fs_Inr call_Inr succeed_Inr split: if_splits)



section \<open>The entry point\<close>

lemma get_github_token_Inr:
  "get_github_token w s = (Inr token, s') \<longleftrightarrow>
     boto3_client w ''secretsmanager'' = None
     \<and> (\<exists>secret_id. environ w ''AWS_SECRET_ID'' = Some secret_id
           \<and> get_secret_value w secret_id = Inr (Some token)
           \<and> s' = s\<lparr>events := events s @ [Boto3Client ''secretsmanager'', GetSecretValue secret_id]\<rparr>)"
  by (auto simp: get_github_token_def and_then_def call_def emit_def environ_item_def
      succeed_def raise_def split: prod.splits sum.splits option.splits if_splits)

lemma handler_body_Inr:
  "handler_body w s = (Inr (counter, github_repo, branch), s') \<longleftrightarrow>
     missing_vars w = []
     \<and> environ w ''GITHUB_REPO'' = Some github_repo
     \<and> environ w ''BRANCH'' = Some branch
     \<and> boto3_client w ''secretsmanager'' = None
     \<and> (\<exists>file_path secret_id token repo s1 s2.
           environ w ''FILE_PATH'' = Some file_path
         \<and> environ w ''AWS_SECRET_ID'' = Some secret_id
         \<and> get_secret_value w secret_id = Inr (Some token)
         \<and> setup_repo w token (repo_url_of token github_repo) branch
              (s\<lparr>events := events s @ [Boto3Client ''secretsmanager'', GetSecretValue secret_id]\<rparr>)
             = (Inr repo, s1)
         \<and> update_counter w (os_path_join ''/tmp/repo'' file_path) s1 = (Inr counter, s2)
         \<and> git_add w (os_path_join ''/tmp/repo'' file_path) = None
         \<and> index_commit w (commit_message counter) = None
         \<and> remote_push w ''origin'' = None
         \<and> s' = s2\<lparr>events := events s2 @
                      [GitAdd (os_path_join ''/tmp/repo'' file_path),
                       IndexCommit (commit_message counter), RemotePush ''origin''],
                   logs := logs s2 @
                      [(INFO, ''Created commit''),
                       (INFO, ''Successfully pushed changes to remote repository'')]\<rparr>)"
  by (auto simp: handler_body_def and_then_Inr environ_item_Inr get_github_token_Inr
      call_Inr logger_Inr succeed_Inr raise_Inr)


lemma sublist_join: "v \<in> set xs \<Longrightarrow> sublist v (join sep xs)"
proof (induction sep xs rule: join.induct)
  case (3 sep x y ys)
  show ?case
  proof (cases "v = x")
    case True
    then show ?thesis by simp
  next
    case False
    with 3 have "sublist v (join sep (y # ys))" by simp
    then show ?thesis by (simp add: sublist_append)
  qed
qed simp_all

lemma missing_vars_iff:
  "var \<in> set (missing_vars w) \<longleftrightarrow>
     var \<in> set required_env_vars \<and> (environ w var = None \<or> environ w var = Some [])"
  by (auto simp: missing_vars_def not_set_def split: option.splits)

text \<open>
  C5. When one of the four required settings is absent from the environment or empty,
  \<^verbatim>\<open>lambda_handler\<close> returns the failure response and leaves the state as it was but for
  one logged error: no external call is made and the file tree is untouched. The error
  description is the fixed prefix followed by the missing names, in the order of the
  required list and separated by commas, so every missing name occurs in it.
\<close>

theorem lambda_handler_missing_settings:
  assumes "\<exists>var \<in> set required_env_vars. environ w var = None \<or> environ w var = Some []"
  shows "lambda_handler w s =
     (\<lparr>statusCode = 500,
       body = json_dumps [(''error'', ''Missing required environment variables: ''
                                        @ join '', '' (missing_vars w))]\<rparr>,
      s\<lparr>logs := logs s @
           [(ERROR, ''Lambda execution failed: Missing required environment variables: ''
                       @ join '', '' (missing_vars w))]\<rparr>)
   \<and> missing_vars w =
       filter (\<lambda>var. environ w var = None \<or> environ w var = Some []) required_env_vars
   \<and> (\<forall>var \<in> set required_env_vars.
         environ w var = None \<or> environ w var = Some [] \<longrightarrow>
           sublist var (''Missing required environment variables: ''
                          @ join '', '' (missing_vars w)))"
proof (intro conjI ballI impI)
  from assms have "missing_vars w \<noteq> []"
    using missing_vars_iff [of _ w] by (metis empty_iff empty_set)
  then show "lambda_handler w s =
     (\<lparr>statusCode = 500,
       body = json_dumps [(''error'', ''Missing required environment variables: ''
                                        @ join '', '' (missing_vars w))]\<rparr>,
      s\<lparr>logs := logs s @
           [(ERROR, ''Lambda execution failed: Missing required environment variables: ''
                       @ join '', '' (missing_vars w))]\<rparr>)"
    by (simp add: lambda_handler_def handler_body_def raise_def)
next
  have "not_set w = (\<lambda>var. environ w var = None \<or> environ w var = Some [])"
    by (auto simp: not_set_def fun_eq_iff split: option.splits)
  then show "missing_vars w =
       filter (\<lambda>var. environ w var = None \<or> environ w var = Some []) required_env_vars"
    by (simp add: missing_vars_def)
next
  fix var
  assume "var \<in> set required_env_vars" and "environ w var = None \<or> environ w var = Some []"
  then have "var \<in> set (missing_vars w)" by (simp add: missing_vars_iff)
  then have "sublist var (join '', '' (missing_vars w))" by (rule sublist_join)
  then show "sublist var (''Missing required environment variables: ''
                          @ join '', '' (missing_vars w))"
    by (simp only: sublist_append) simp
qed


theorem lambda_handler_missing_settings_witness:
  "''BRANCH'' \<in> set required_env_vars
   \<and> environ (example_world partial_environ ''t0k3n'' tree_41) ''BRANCH'' = None
   \<and> environ (example_world partial_environ ''t0k3n'' tree_41) ''AWS_SECRET_ID'' = Some []
   \<and> lambda_handler (example_world partial_environ ''t0k3n'' tree_41) stale_state =
       (\<lparr>statusCode = 500,
         body = json_dumps
           [(''error'', ''Missing required environment variables: BRANCH, AWS_SECRET_ID'')]\<rparr>,
        stale_state\<lparr>logs :=
           [(ERROR, ''Lambda execution failed: Missing required environment variables: BRANCH, AWS_SECRET_ID'')]\<rparr>)"
proof -
  let ?w = "example_world partial_environ ''t0k3n'' tree_41"
  have hyp: "\<exists>var \<in> set required_env_vars. environ ?w var = None \<or> environ ?w var = Some []"
    by (simp add: required_env_vars_def example_world_def partial_environ_def)
  have mv: "missing_vars ?w = [''BRANCH'', ''AWS_SECRET_ID'']"
    by (simp add: missing_vars_def not_set_def required_env_vars_def example_world_def
        partial_environ_def)
  from lambda_handler_missing_settings [OF hyp, of stale_state] mv show ?thesis
    by (simp add: required_env_vars_def example_world_def partial_environ_def stale_state_def)
qed

lemma lambda_handler_success:
  assumes "handler_body w s = (Inr (counter, github_repo, branch), s')"
  shows "lambda_handler w s =
     (\<lparr>statusCode = 200,
       body = json_dumps [(''message'', ''Counter updated to '' @ str_int counter),
                          (''repository'', github_repo), (''branch'', branch)]\<rparr>, s')"
  using assms by (simp add: lambda_handler_def)

lemma lambda_handler_failure:
  assumes "handler_body w s = (Inl e, s')"
  shows "lambda_handler w s =
     (\<lparr>statusCode = 500, body = json_dumps [(''error'', str_exn e)]\<rparr>,
      s'\<lparr>logs := logs s' @ [(ERROR, ''Lambda execution failed: '' @ str_exn e)]\<rparr>)"
  using assms by (simp add: lambda_handler_def)

lemma lambda_handler_200:
  assumes "statusCode (fst (lambda_handler w s)) = 200"
  obtains counter github_repo branch s' where
    "handler_body w s = (Inr (counter, github_repo, branch), s')"
proof (cases "handler_body w s")
  case (Pair res s')
  show ?thesis
  proof (cases res)
    case (Inl e)
    with Pair assms show ?thesis by (simp add: lambda_handler_failure)
  next
    case (Inr v)
    with Pair that show ?thesis by (cases v) auto
  qed
qed

lemmas run_defs =
  lambda_handler_def handler_body_def missing_vars_def not_set_def required_env_vars_def
  environ_item_def get_github_token_def setup_repo_def update_counter_def read_counter_def
  open_read_def open_write_def os_path_exists_def os_path_join_def call_def call_fs_def
  emit_def logger_def and_then_def succeed_def raise_def log_and_reraise_def repo_url_of_def
  commit_message_def repo_dir_def quoted_def under_def

lemmas world_defs =
  example_world_def example_environ_def partial_environ_def absolute_environ_def
  denied_world_def leaky_world_def empty_state_def stale_state_def tree_41_def

text \<open>
  C4. Every run of \<^verbatim>\<open>lambda_handler\<close> returns one of two responses. Either the body of
  the \<^verbatim>\<open>try\<close> block returned, and the response has status 200 and as body the JSON
  text of the message \<^verbatim>\<open>Counter updated to N\<close>, the repository identifier and the
  branch, \<open>N\<close> being the value now stored in the counter file; or the body raised an
  exception \<open>e\<close>, and the response has status 500 and as body the JSON text of
  \<^verbatim>\<open>str(e)\<close>, which is also logged. The handler is a total function to responses: no
  exception leaves it.
\<close>

theorem lambda_handler_result_shapes:
  "(\<exists>counter github_repo branch file_path.
       environ w ''GITHUB_REPO'' = Some github_repo
     \<and> environ w ''BRANCH'' = Some branch
     \<and> environ w ''FILE_PATH'' = Some file_path
     \<and> fst (handler_body w s) = Inr (counter, github_repo, branch)
     \<and> fs (snd (lambda_handler w s)) (os_path_join ''/tmp/repo'' file_path)
          = Some (File (str_int counter))
     \<and> fst (lambda_handler w s) =
          \<lparr>statusCode = 200,
           body = json_dumps [(''message'', ''Counter updated to '' @ str_int counter),
                              (''repository'', github_repo), (''branch'', branch)]\<rparr>)
   \<or> (\<exists>e. fst (handler_body w s) = Inl e
     \<and> fst (lambda_handler w s) =
          \<lparr>statusCode = 500, body = json_dumps [(''error'', str_exn e)]\<rparr>
     \<and> logs (snd (lambda_handler w s)) =
          logs (snd (handler_body w s)) @ [(ERROR, ''Lambda execution failed: '' @ str_exn e)])"
proof (cases "handler_body w s")
  case (Pair res s')
  show ?thesis
  proof (cases res)
    case (Inl e)
    with Pair show ?thesis by (simp add: lambda_handler_failure)
  next
    case (Inr v)
    obtain counter github_repo branch where v: "v = (counter, github_repo, branch)"
      by (cases v) auto
    with Pair Inr have hb: "handler_body w s = (Inr (counter, github_repo, branch), s')"
      by simp
    then obtain file_path s1 s2 where env: "environ w ''GITHUB_REPO'' = Some github_repo"
      "environ w ''BRANCH'' = Some branch" "environ w ''FILE_PATH'' = Some file_path"
      and uc: "update_counter w (os_path_join ''/tmp/repo'' file_path) s1 = (Inr counter, s2)"
      and fs': "fs s' = fs s2"
      by (auto simp: handler_body_Inr)
    from update_counter_Inr [OF uc] fs'
    have "fs s' (os_path_join ''/tmp/repo'' file_path) = Some (File (str_int counter))"
      by simp
    with env hb show ?thesis
      by (simp add: lambda_handler_success)
  qed
qed

theorem lambda_handler_result_shapes_witness:
  "fst (lambda_handler (example_world example_environ ''t0k3n'' tree_41) stale_state) =
     \<lparr>statusCode = 200,
      body = json_dumps [(''message'', ''Counter updated to 42''),
                         (''repository'', ''octo/demo''), (''branch'', ''main'')]\<rparr>
   \<and> fst (lambda_handler denied_world empty_state) =
     \<lparr>statusCode = 500,
      body = json_dumps [(''error'',
        ''An error occurred (AccessDeniedException) when calling the GetSecretValue operation'')]\<rparr>
   \<and> events (snd (lambda_handler denied_world empty_state)) =
       [Boto3Client ''secretsmanager'', GetSecretValue ''github/token'']"
  using lambda_handler_result_shapes [of "example_world example_environ ''t0k3n'' tree_41" stale_state]
    lambda_handler_result_shapes [of denied_world empty_state]
  by (simp add: run_defs world_defs text_defs)

text \<open>
  C9. A run that returns status 200 has made exactly these calls, in this order: the
  secrets client and the request for the secret; the removal of the working directory
  (only when it existed); the clone from the URL built from the token and the repository
  identifier; the configuration of the bot identity; the read (when the file exists) and
  the write of the counter file in the working directory; \<^verbatim>\<open>git add\<close> of that one file;
  one commit whose message carries the new counter value; the push to \<^verbatim>\<open>origin\<close>.
\<close>

theorem lambda_handler_success_sequence:
  assumes "statusCode (fst (lambda_handler w s)) = 200"
  shows "\<exists>github_repo file_path branch secret_id token counter reads.
       environ w ''GITHUB_REPO'' = Some github_repo
     \<and> environ w ''FILE_PATH'' = Some file_path
     \<and> environ w ''BRANCH'' = Some branch
     \<and> environ w ''AWS_SECRET_ID'' = Some secret_id
     \<and> get_secret_value w secret_id = Inr (Some token)
     \<and> (reads = [] \<or> reads = [FileRead (os_path_join ''/tmp/repo'' file_path)])
     \<and> events (snd (lambda_handler w s)) =
         events s @
         [Boto3Client ''secretsmanager'', GetSecretValue secret_id] @
         (if fs s ''/tmp/repo'' \<noteq> None then [SubprocessRun [''rm'', ''-rf'', ''/tmp/repo'']] else []) @
         [CloneFrom (''https://'' @ token @ ''@github.com/'' @ github_repo @ ''.git'')
            ''/tmp/repo'' branch,
          ConfigWriter ''repository'',
          SetValue ''user'' ''name'' ''Commitron Bot'',
          SetValue ''user'' ''email'' ''bot@commitron.com''] @
         reads @
         [FileWrite (os_path_join ''/tmp/repo'' file_path) (str_int counter),
          GitAdd (os_path_join ''/tmp/repo'' file_path),
          IndexCommit (''Automated commit: Increment counter to '' @ str_int counter),
          RemotePush ''origin'']
     \<and> fst (lambda_handler w s) =
          \<lparr>statusCode = 200,
           body = json_dumps [(''message'', ''Counter updated to '' @ str_int counter),
                              (''repository'', github_repo), (''branch'', branch)]\<rparr>"
proof -
  from assms obtain counter github_repo branch s' where
    hb: "handler_body w s = (Inr (counter, github_repo, branch), s')"
    by (rule lambda_handler_200)
  then obtain file_path secret_id token repo s1 s2 where
    env: "environ w ''GITHUB_REPO'' = Some github_repo" "environ w ''FILE_PATH'' = Some file_path"
      "environ w ''BRANCH'' = Some branch" "environ w ''AWS_SECRET_ID'' = Some secret_id"
    and tok: "get_secret_value w secret_id = Inr (Some token)"
    and sr: "setup_repo w token (repo_url_of token github_repo) branch
              (s\<lparr>events := events s @ [Boto3Client ''secretsmanager'', GetSecretValue secret_id]\<rparr>)
             = (Inr repo, s1)"
    and uc: "update_counter w (os_path_join ''/tmp/repo'' file_path) s1 = (Inr counter, s2)"
    and ev': "events s' = events s2 @
                      [GitAdd (os_path_join ''/tmp/repo'' file_path),
                       IndexCommit (commit_message counter), RemotePush ''origin'']"
    by (auto simp: handler_body_Inr)
  from sr have ev1: "events s1 = events s @
         [Boto3Client ''secretsmanager'', GetSecretValue secret_id] @
         (if fs s ''/tmp/repo'' \<noteq> None then [SubprocessRun [''rm'', ''-rf'', ''/tmp/repo'']] else []) @
         [CloneFrom (''https://'' @ token @ ''@github.com/'' @ github_repo @ ''.git'')
            ''/tmp/repo'' branch,
          ConfigWriter ''repository'',
          SetValue ''user'' ''name'' ''Commitron Bot'',
          SetValue ''user'' ''email'' ''bot@commitron.com'']"
    by (auto simp: setup_repo_Inr repo_url_of_def repo_dir_def)
  from update_counter_Inr [OF uc] obtain reads where
    rd: "reads = [] \<or> reads = [FileRead (os_path_join ''/tmp/repo'' file_path)]"
    and ev2: "events s2 = events s1 @ reads
        @ [FileWrite (os_path_join ''/tmp/repo'' file_path) (str_int counter)]"
    by auto
  from hb have res: "lambda_handler w s =
     (\<lparr>statusCode = 200,
       body = json_dumps [(''message'', ''Counter updated to '' @ str_int counter),
                          (''repository'', github_repo), (''branch'', branch)]\<rparr>, s')"
    by (rule lambda_handler_success)
  from ev1 ev2 ev' have "events s' = events s @
         [Boto3Client ''secretsmanager'', GetSecretValue secret_id] @
         (if fs s ''/tmp/repo'' \<noteq> None then [SubprocessRun [''rm'', ''-rf'', ''/tmp/repo'']] else []) @
         [CloneFrom (''https://'' @ token @ ''@github.com/'' @ github_repo @ ''.git'')
            ''/tmp/repo'' branch,
          ConfigWriter ''repository'',
          SetValue ''user'' ''name'' ''Commitron Bot'',
          SetValue ''user'' ''email'' ''bot@commitron.com''] @
         reads @
         [FileWrite (os_path_join ''/tmp/repo'' file_path) (str_int counter),
          GitAdd (os_path_join ''/tmp/repo'' file_path),
          IndexCommit (''Automated commit: Increment counter to '' @ str_int counter),
          RemotePush ''origin'']"
    by (simp add: commit_message_def)
  with env tok rd res show ?thesis
    by (intro exI [of _ github_repo] exI [of _ file_path] exI [of _ branch]
        exI [of _ secret_id] exI [of _ token] exI [of _ counter] exI [of _ reads]) simp
qed

theorem lambda_handler_success_sequence_witness:
  "statusCode (fst (lambda_handler (example_world example_environ ''t0k3n'' tree_41) stale_state)) = 200
   \<and> events (snd (lambda_handler (example_world example_environ ''t0k3n'' tree_41) stale_state)) =
       [Boto3Client ''secretsmanager'', GetSecretValue ''github/token'',
        SubprocessRun [''rm'', ''-rf'', ''/tmp/repo''],
        CloneFrom ''https://t0k3n@github.com/octo/demo.git'' ''/tmp/repo'' ''main'',
        ConfigWriter ''repository'',
        SetValue ''user'' ''name'' ''Commitron Bot'',
        SetValue ''user'' ''email'' ''bot@commitron.com'',
        FileRead ''/tmp/repo/counter.txt'',
        FileWrite ''/tmp/repo/counter.txt'' ''42'',
        GitAdd ''/tmp/repo/counter.txt'',
        IndexCommit ''Automated commit: Increment counter to 42'',
        RemotePush ''origin'']"
proof -
  let ?w = "example_world example_environ ''t0k3n'' tree_41"
  have ok: "statusCode (fst (lambda_handler ?w stale_state)) = 200"
    by (simp add: run_defs world_defs text_defs)
  from lambda_handler_success_sequence [OF ok] show ?thesis
    by (simp add: run_defs world_defs text_defs)
qed




text \<open>
  C8, at a failing clone. The source logs \<^verbatim>\<open>str(e)\<close> of whatever the clone raises,
  twice, and the clone was given the URL that holds the token. In a world where the
  exception's text carries the command line, the token is in the log, and two runs that
  differ in the token alone log different text.
\<close>

theorem token_in_log:
  "logs (snd (lambda_handler (leaky_world ''tokenA'') empty_state)) =
     [(INFO, ''Cloning repository''),
      (ERROR, ''Failed to set up repository: Cmd(git) failed due to: exit code(128) cmdline: git clone -v --branch=main -- https://tokenA@github.com/octo/demo.git /tmp/repo''),
      (ERROR, ''Lambda execution failed: Cmd(git) failed due to: exit code(128) cmdline: git clone -v --branch=main -- https://tokenA@github.com/octo/demo.git /tmp/repo'')]
   \<and> logs (snd (lambda_handler (leaky_world ''tokenB'') empty_state)) =
     [(INFO, ''Cloning repository''),
      (ERROR, ''Failed to set up repository: Cmd(git) failed due to: exit code(128) cmdline: git clone -v --branch=main -- https://tokenB@github.com/octo/demo.git /tmp/repo''),
      (ERROR, ''Lambda execution failed: Cmd(git) failed due to: exit code(128) cmdline: git clone -v --branch=main -- https://tokenB@github.com/octo/demo.git /tmp/repo'')]
   \<and> logs (snd (lambda_handler (leaky_world ''tokenA'') empty_state))
       \<noteq> logs (snd (lambda_handler (leaky_world ''tokenB'') empty_state))"
  by (simp add: run_defs world_defs)

end
